theory Spec2Isabelle
  imports Complex_Main "HOL-Library.Word" "HOL-Library.Sublist"
begin

section \<open>Exceptions\<close>

text \<open>
  The exception classes that \<^verbatim>\<open>example.py\<close> raises or catches. \<open>SerializationFailure\<close>
  is a subclass of \<^verbatim>\<open>psycopg.Error\<close>; \<open>OtherPsycopgError\<close> stands for every other
  subclass of \<^verbatim>\<open>psycopg.Error\<close>; the remaining classes are not database errors.
  An exception is its class together with its message.
\<close>

datatype exn_class =
    SerializationFailure
  | OtherPsycopgError
  | RuntimeError
  | ValueError
  | TypeError
  | IndexError

type_synonym exn = "exn_class \<times> string"

text \<open>What \<^verbatim>\<open>except SerializationFailure\<close> matches.\<close>

fun isinstance_SerializationFailure :: "exn \<Rightarrow> bool" where
  "isinstance_SerializationFailure (cls, msg) = (cls = SerializationFailure)"

text \<open>What \<^verbatim>\<open>except psycopg.Error\<close> matches (subclasses included).\<close>

fun isinstance_psycopg_Error :: "exn \<Rightarrow> bool" where
  "isinstance_psycopg_Error (cls, msg) = (cls = SerializationFailure \<or> cls = OtherPsycopgError)"

text \<open>What \<^verbatim>\<open>except ValueError\<close> matches.\<close>

fun isinstance_ValueError :: "exn \<Rightarrow> bool" where
  "isinstance_ValueError (cls, msg) = (cls = ValueError)"

section \<open>Rendering integers\<close>

text \<open>Python's \<^verbatim>\<open>str\<close> on an integer, as the f-strings of the program use it.\<close>

definition digit_char :: "nat \<Rightarrow> char" where
  "digit_char d = ''0123456789'' ! d"

fun str_nat :: "nat \<Rightarrow> string" where
  "str_nat n =
     (if n < 10 then [digit_char n] else str_nat (n div 10) @ [digit_char (n mod 10)])"

definition str_int :: "int \<Rightarrow> string" where
  "str_int i = (if i < 0 then CHR ''-'' # str_nat (nat (- i)) else str_nat (nat i))"

section \<open>The world run_transaction acts on\<close>

text \<open>
  The calls that \<^verbatim>\<open>run_transaction\<close> makes on its collaborators, in the order it makes
  them: entering the \<^verbatim>\<open>with conn.transaction()\<close> block, invoking \<^verbatim>\<open>op(conn)\<close>,
  \<^verbatim>\<open>conn.rollback()\<close>, \<^verbatim>\<open>time.sleep(...)\<close>, and leaving the block, which commits when the
  block is left normally and rolls back when it is left with an exception (the comment
  at lines 77-78). The \<^verbatim>\<open>logging.debug\<close> calls are not recorded.
\<close>

datatype call =
    Tx_Enter
  | Op_Call
  | Conn_Rollback
  | Time_Sleep
  | Tx_Commit
  | Tx_Rollback

text \<open>
  The connection state \<open>'s\<close> is the caller's; the random generator is the sequence of
  its future 53-bit outputs; \<open>calls\<close> logs the calls made and \<open>slept\<close> the durations
  handed to \<^verbatim>\<open>time.sleep\<close>, oldest first.
\<close>

record 's world =
  conn :: 's
  rng :: "nat \<Rightarrow> 53 word"
  calls :: "call list"
  slept :: "real list"

text \<open>
  The database library is not part of the program. Its effect on the connection state is
  a parameter: what entering the transaction block, leaving it normally, leaving it with
  an exception, and \<^verbatim>\<open>conn.rollback()\<close> do. Each of these calls, like \<^verbatim>\<open>time.sleep\<close> and
  \<^verbatim>\<open>random.random\<close>, is taken to return normally: the only exceptions of the model
  are those of the unit of work and the ValueError of line 104.
\<close>

record 's session =
  tx_enter :: "'s \<Rightarrow> 's"
  tx_commit :: "'s \<Rightarrow> 's"
  tx_rollback :: "'s \<Rightarrow> 's"
  rollback :: "'s \<Rightarrow> 's"

text \<open>A unit of work takes the connection and returns normally or raises.\<close>

type_synonym 's unit_of_work = "'s \<Rightarrow> (exn + unit) \<times> 's"

text \<open>
  \<^verbatim>\<open>random.random()\<close>: the next 53-bit output \<open>k\<close> of the generator as \<open>k / 2^53\<close>.
  Floating-point rounding is not modelled: durations are exact reals.
\<close>

definition random_random :: "(nat \<Rightarrow> 53 word) \<Rightarrow> real \<times> (nat \<Rightarrow> 53 word)" where
  "random_random g = (real (unat (g 0)) / 2 ^ 53, (\<lambda>n. g (Suc n)))"

text \<open>
  Line 95: \<^verbatim>\<open>(2**retry) * 0.1 * (random.random() + 0.5)\<close>, the draw being \<open>r\<close>. The loop
  only ever has \<open>retry \<ge> 1\<close>, where \<open>2 ^ nat retry\<close> is Python's \<^verbatim>\<open>2**retry\<close>.
\<close>

definition sleep_seconds :: "int \<Rightarrow> real \<Rightarrow> real" where
  "sleep_seconds retry r = 2 ^ nat retry * 0.1 * (r + 0.5)"

section \<open>run_transaction\<close>

text \<open>
  Lines 93-97, the handler of a serialization failure at attempt \<open>retry\<close>: roll back,
  draw the jitter, sleep.
\<close>

definition handle_serialization_failure :: "'s session \<Rightarrow> int \<Rightarrow> 's world \<Rightarrow> 's world" where
  "handle_serialization_failure S retry w =
     (let w1 = w\<lparr>conn := rollback S (conn w), calls := calls w @ [Conn_Rollback]\<rparr>;
          (r, g) = random_random (rng w1)
      in w1\<lparr>rng := g,
            calls := calls w1 @ [Time_Sleep],
            slept := slept w1 @ [sleep_seconds retry r]\<rparr>)"

text \<open>
  Lines 80-102, the loop over \<^verbatim>\<open>range(1, max_retries + 1)\<close>, by recursion on the attempt
  numbers still to run. \<open>Some (Inr ())\<close> is the \<^verbatim>\<open>return\<close> of line 86, \<open>Some (Inl e)\<close>
  an exception leaving the loop, \<open>None\<close> the loop running to its end.
\<close>

fun retry_loop ::
  "'s session \<Rightarrow> 's unit_of_work \<Rightarrow> int list \<Rightarrow> 's world \<Rightarrow> (exn + unit) option \<times> 's world" where
  "retry_loop S op [] w = (None, w)"
| "retry_loop S op (retry # rest) w =
     (case op (conn w) of
        (Inr u, c) \<Rightarrow> (Some (Inr ()), w\<lparr>conn := c, calls := calls w @ [Op_Call]\<rparr>)
      | (Inl e, c) \<Rightarrow>
          if isinstance_SerializationFailure e then
            retry_loop S op rest
              (handle_serialization_failure S retry (w\<lparr>conn := c, calls := calls w @ [Op_Call]\<rparr>))
          else if isinstance_psycopg_Error e then
            (Some (Inl e), w\<lparr>conn := c, calls := calls w @ [Op_Call]\<rparr>)
          else
            (Some (Inl e), w\<lparr>conn := c, calls := calls w @ [Op_Call]\<rparr>))"

text \<open>Lines 104-105: the error raised when the loop runs to its end.\<close>

definition retries_exhausted :: "int \<Rightarrow> exn" where
  "retries_exhausted max_retries =
     (ValueError, ''transaction did not succeed after '' @ str_int max_retries @ '' retries'')"

text \<open>Leaving the \<^verbatim>\<open>with conn.transaction()\<close> block, normally or with an exception.\<close>

definition leave_commit :: "'s session \<Rightarrow> 's world \<Rightarrow> 's world" where
  "leave_commit S w = w\<lparr>conn := tx_commit S (conn w), calls := calls w @ [Tx_Commit]\<rparr>"

definition leave_rollback :: "'s session \<Rightarrow> 's world \<Rightarrow> 's world" where
  "leave_rollback S w = w\<lparr>conn := tx_rollback S (conn w), calls := calls w @ [Tx_Rollback]\<rparr>"

text \<open>Lines 70-105. \<open>Inr ()\<close> is a normal return, \<open>Inl e\<close> the exception that leaves the call.\<close>

definition run_transaction ::
  "'s session \<Rightarrow> 's unit_of_work \<Rightarrow> int \<Rightarrow> 's world \<Rightarrow> (exn + unit) \<times> 's world" where
  "run_transaction S op max_retries w =
     (case retry_loop S op [1..max_retries]
             (w\<lparr>conn := tx_enter S (conn w), calls := calls w @ [Tx_Enter]\<rparr>) of
        (Some (Inr u), w1) \<Rightarrow> (Inr (), leave_commit S w1)
      | (Some (Inl e), w1) \<Rightarrow> (Inl e, leave_rollback S w1)
      | (None, w1) \<Rightarrow> (Inl (retries_exhausted max_retries), leave_rollback S w1))"

text \<open>The default of the parameter \<^verbatim>\<open>max_retries\<close>.\<close>

definition default_max_retries :: int where
  "default_max_retries = 3"

text \<open>The calls made between the world \<open>w\<close> and the later world \<open>w'\<close>.\<close>

definition calls_during :: "'s world \<Rightarrow> 's world \<Rightarrow> call list" where
  "calls_during w w' = drop (length (calls w)) (calls w')"

definition sleeps_during :: "'s world \<Rightarrow> 's world \<Rightarrow> real list" where
  "sleeps_during w w' = drop (length (slept w)) (slept w')"

section \<open>The accounts table and the sample workload\<close>

text \<open>
  A row of table \<^verbatim>\<open>accounts\<close> is an id with its balance. A UUID is identified with its
  canonical text, which is what the f-string of line 54 prints. Balances are unbounded
  integers: the range check of the column type belongs to the database and is not
  modelled. No statement of the program stores a NULL balance.
\<close>

type_synonym uuid = string

type_synonym table = "uuid \<rightharpoonup> int"

text \<open>
  Modelled from the spec: the database and its driver are not part of the program. What
  the database answers to a statement is an input: it carries the statement out, reports
  that the transaction cannot be serialized, or reports another database error.
\<close>

datatype db_answer = Done | Restart | Failed

fun answer_exn :: "db_answer \<Rightarrow> exn option" where
  "answer_exn Done = None"
| "answer_exn Restart = Some (SerializationFailure, ''restart transaction'')"
| "answer_exn Failed = Some (OtherPsycopgError, ''database error'')"

text \<open>
  Modelled from the spec: a session on the database. \<open>accounts\<close> holds the rows as the
  session reads them, \<open>tx_start\<close> the rows at the start of the open transaction (\<open>None\<close>
  when no transaction is open), \<open>answers\<close> what the database will answer to the next
  statements (every statement after the listed ones is carried out).
\<close>

record db =
  accounts :: table
  tx_start :: "table option"
  answers :: "db_answer list"

text \<open>\<^verbatim>\<open>cur.execute\<close> of a statement with effect \<open>stmt\<close> on the rows.\<close>

definition cur_execute :: "(table \<Rightarrow> table) \<Rightarrow> db \<Rightarrow> (exn + unit) \<times> db" where
  "cur_execute stmt c =
     (case answers c of
        [] \<Rightarrow> (Inr (), c\<lparr>accounts := stmt (accounts c)\<rparr>)
      | a # rest \<Rightarrow>
          (case answer_exn a of
             None \<Rightarrow> (Inr (), c\<lparr>accounts := stmt (accounts c), answers := rest\<rparr>)
           | Some e \<Rightarrow> (Inl e, c\<lparr>answers := rest\<rparr>)))"

text \<open>
  Modelled from the spec: the effect of the driver's transaction scope and rollback on
  the session (section 6). The scope commits on a clean exit, and a rollback, from the
  scope or by \<^verbatim>\<open>conn.rollback()\<close>, aborts the open transaction and restores the rows of
  its start.
\<close>

definition restore :: "db \<Rightarrow> db" where
  "restore c =
     (case tx_start c of None \<Rightarrow> c | Some t \<Rightarrow> c\<lparr>accounts := t, tx_start := None\<rparr>)"

definition pg :: "db session" where
  "pg = \<lparr>tx_enter = (\<lambda>c. c\<lparr>tx_start := Some (accounts c)\<rparr>),
         tx_commit = (\<lambda>c. c\<lparr>tx_start := None\<rparr>),
         tx_rollback = restore,
         rollback = restore\<rparr>"

text \<open>The statements of the program, as functions on the rows.\<close>

definition upsert_accounts :: "uuid \<Rightarrow> uuid \<Rightarrow> table \<Rightarrow> table" where
  "upsert_accounts id1 id2 t = t(id1 \<mapsto> 1000, id2 \<mapsto> 250)"

definition update_balance :: "(int \<Rightarrow> int) \<Rightarrow> uuid \<Rightarrow> table \<Rightarrow> table" where
  "update_balance f k t = (case t k of None \<Rightarrow> t | Some b \<Rightarrow> t(k \<mapsto> f b))"

text \<open>
  Lines 18-29. The two results of \<^verbatim>\<open>uuid.uuid4()\<close> are the parameters \<open>id1\<close> and \<open>id2\<close>.
  What the database does with an UPSERT of the same id twice is not modelled: the
  properties below take the two ids distinct.
\<close>

definition create_accounts :: "uuid \<Rightarrow> uuid \<Rightarrow> db \<Rightarrow> (exn + uuid list) \<times> db" where
  "create_accounts id1 id2 c =
     (case cur_execute (\<lambda>t. t) c of
        (Inl e, c1) \<Rightarrow> (Inl e, c1)
      | (Inr u, c1) \<Rightarrow>
          (case cur_execute (upsert_accounts id1 id2) c1 of
             (Inl e, c2) \<Rightarrow> (Inl e, c2)
           | (Inr u, c2) \<Rightarrow> (Inr [id1, id2], c2)))"

text \<open>Lines 39-43; the printed text is not modelled, only the query.\<close>

definition print_balances :: "db \<Rightarrow> (exn + unit) \<times> db" where
  "print_balances c = cur_execute (\<lambda>t. t) c"

text \<open>
  Lines 46-67. \<^verbatim>\<open>cur.fetchone()[0]\<close> raises a TypeError when the query returned no row.
\<close>

definition insufficient_funds :: "uuid \<Rightarrow> int \<Rightarrow> int \<Rightarrow> exn" where
  "insufficient_funds frm from_balance amount =
     (RuntimeError,
      ''insufficient funds in '' @ frm @ '': have '' @ str_int from_balance
        @ '', need '' @ str_int amount)"

definition transfer_funds :: "uuid \<Rightarrow> uuid \<Rightarrow> int \<Rightarrow> db unit_of_work" where
  "transfer_funds frm to amount c =
     (case cur_execute (\<lambda>t. t) c of
        (Inl e, c1) \<Rightarrow> (Inl e, c1)
      | (Inr u, c1) \<Rightarrow>
          (case accounts c1 frm of
             None \<Rightarrow> (Inl (TypeError, ''NoneType object is not subscriptable''), c1)
           | Some from_balance \<Rightarrow>
               if from_balance < amount then
                 (Inl (insufficient_funds frm from_balance amount), c1)
               else
                 (case cur_execute (update_balance (\<lambda>b. b - amount) frm) c1 of
                    (Inl e, c2) \<Rightarrow> (Inl e, c2)
                  | (Inr u, c2) \<Rightarrow> cur_execute (update_balance (\<lambda>b. b + amount) to) c2)))"

text \<open>\<^verbatim>\<open>list.pop()\<close>: removes and returns the last element.\<close>

definition list_pop :: "'a list \<Rightarrow> exn + ('a \<times> 'a list)" where
  "list_pop xs =
     (if xs = [] then Inl (IndexError, ''pop from empty list'') else Inr (last xs, butlast xs))"

text \<open>
  Lines 121-138 of \<^verbatim>\<open>main\<close>: the accounts are created, the balances queried, and 100 is
  transferred under \<^verbatim>\<open>run_transaction\<close> with the default \<^verbatim>\<open>max_retries\<close>. A ValueError
  from \<^verbatim>\<open>run_transaction\<close> is logged and swallowed; every other exception leaves the
  block. The rows of the resulting connection are what the second \<^verbatim>\<open>print_balances\<close>
  of line 140 reads.
\<close>

definition main_transfer :: "uuid \<Rightarrow> uuid \<Rightarrow> db world \<Rightarrow> (exn + unit) \<times> db world" where
  "main_transfer id1 id2 w =
     (case create_accounts id1 id2 (conn w) of
        (Inl e, c) \<Rightarrow> (Inl e, w\<lparr>conn := c\<rparr>)
      | (Inr ids, c) \<Rightarrow>
          (case print_balances c of
             (Inl e, c1) \<Rightarrow> (Inl e, w\<lparr>conn := c1\<rparr>)
           | (Inr u, c1) \<Rightarrow>
               (let amount = 100 in
                case list_pop ids of
                  Inl e \<Rightarrow> (Inl e, w\<lparr>conn := c1\<rparr>)
                | Inr (toId, ids1) \<Rightarrow>
                    (case list_pop ids1 of
                       Inl e \<Rightarrow> (Inl e, w\<lparr>conn := c1\<rparr>)
                     | Inr (fromId, ids2) \<Rightarrow>
                         (case run_transaction pg (transfer_funds fromId toId amount)
                                 default_max_retries (w\<lparr>conn := c1\<rparr>) of
                            (Inr u, w1) \<Rightarrow> (Inr (), w1)
                          | (Inl e, w1) \<Rightarrow>
                              if isinstance_ValueError e then (Inr (), w1)
                              else if isinstance_psycopg_Error e then (Inl e, w1)
                              else (Inl e, w1))))))"

section \<open>Open transactions along the calls\<close>




section \<open>Failure patterns of a unit of work\<close>




text \<open>The value of the \<open>i\<close>-th next \<^verbatim>\<open>random.random()\<close> of a generator, counting from 0.\<close>

definition draw_at :: "(nat \<Rightarrow> 53 word) \<Rightarrow> nat \<Rightarrow> real" where
  "draw_at g i = real (unat (g i)) / 2 ^ 53"


section \<open>Sample inputs\<close>

text \<open>
  A database holding account \<open>a\<close> with balance \<open>b\<close> and account \<open>b\<close> with balance 250, that
  will answer its next statements with \<open>as\<close>; a database with no rows; and a world in
  which nothing has been called yet.
\<close>

definition sample_db :: "int \<Rightarrow> db_answer list \<Rightarrow> db" where
  "sample_db b as = \<lparr>accounts = [''a'' \<mapsto> b, ''b'' \<mapsto> 250], tx_start = None, answers = as\<rparr>"

definition empty_db :: db where
  "empty_db = \<lparr>accounts = Map.empty, tx_start = None, answers = []\<rparr>"

definition fresh_world :: "'s \<Rightarrow> 's world" where
  "fresh_world c = \<lparr>conn = c, rng = (\<lambda>i. 0), calls = [], slept = []\<rparr>"

section \<open>The backoff\<close>



lemma handle_conn [simp]:
  "conn (handle_serialization_failure S retry w) = rollback S (conn w)"
  by (simp add: handle_serialization_failure_def random_random_def)

lemma handle_calls [simp]:
  "calls (handle_serialization_failure S retry w) = calls w @ [Conn_Rollback, Time_Sleep]"
  by (simp add: handle_serialization_failure_def random_random_def)

lemma handle_slept [simp]:
  "slept (handle_serialization_failure S retry w)
     = slept w @ [sleep_seconds retry (draw_at (rng w) 0)]"
  by (simp add: handle_serialization_failure_def random_random_def draw_at_def)

lemma handle_rng [simp]:
  "rng (handle_serialization_failure S retry w) = (\<lambda>n. rng w (Suc n))"
  by (simp add: handle_serialization_failure_def random_random_def)




section \<open>The retry loop\<close>

lemmas sample_defs = sample_db_def fresh_world_def pg_def restore_def transfer_funds_def
  cur_execute_def update_balance_def

lemma upto_1_0: "[1..(0::int)] = []"
  by (simp add: upto.simps)

lemma upto_from_1: "1 \<le> m \<Longrightarrow> [1..m] = 1 # [2..m]"
  by (simp add: upto_rec1)









lemma run_transaction_first_raises:
  assumes "1 \<le> max_retries"
    and "fst (op (tx_enter S (conn w))) = Inl e"
    and "\<not> isinstance_SerializationFailure e"
  shows "run_transaction S op max_retries w
    = (Inl e, leave_rollback S
         (w\<lparr>conn := snd (op (tx_enter S (conn w))), calls := calls w @ [Tx_Enter, Op_Call]\<rparr>))"
proof -
  obtain c where "op (tx_enter S (conn w)) = (Inl e, c)"
    using assms(2) by (cases "op (tx_enter S (conn w))") auto
  then show ?thesis
    using assms(3) by (simp add: run_transaction_def upto_from_1 [OF assms(1)])
qed

lemma run_transaction_first_returns:
  assumes "1 \<le> max_retries" and "fst (op (tx_enter S (conn w))) = Inr ()"
  shows "run_transaction S op max_retries w
    = (Inr (), leave_commit S
         (w\<lparr>conn := snd (op (tx_enter S (conn w))), calls := calls w @ [Tx_Enter, Op_Call]\<rparr>))"
proof -
  obtain c where "op (tx_enter S (conn w)) = (Inr (), c)"
    using assms(2) by (cases "op (tx_enter S (conn w))") auto
  then show ?thesis
    by (simp add: run_transaction_def upto_from_1 [OF assms(1)])
qed

section \<open>Outcomes of run_transaction\<close>





text \<open>
  C4. If the first invocation of the unit of work raises a database error that is not a
  serialization failure, then run_transaction raises that same error; the unit of work
  has been invoked exactly once, nothing has slept, and the only other calls are the
  entry and the rollback that leaves the block.
\<close>

theorem run_transaction_fatal_error:
  assumes "1 \<le> max_retries"
    and "fst (op (tx_enter S (conn w))) = Inl e"
    and "isinstance_psycopg_Error e"
    and "\<not> isinstance_SerializationFailure e"
  shows "fst (run_transaction S op max_retries w) = Inl e
    \<and> calls_during w (snd (run_transaction S op max_retries w)) = [Tx_Enter, Op_Call, Tx_Rollback]
    \<and> count_list (calls_during w (snd (run_transaction S op max_retries w))) Op_Call = 1
    \<and> count_list (calls_during w (snd (run_transaction S op max_retries w))) Time_Sleep = 0
    \<and> sleeps_during w (snd (run_transaction S op max_retries w)) = []"
  using run_transaction_first_raises
      [where S = S and op = op and w = w and e = e and max_retries = max_retries] assms
  by (simp add: calls_during_def sleeps_during_def leave_rollback_def)

text \<open>The transfer, the database answering the first statement with another error.\<close>

theorem run_transaction_fatal_error_witness:
  "(1::int) \<le> 3
   \<and> fst (transfer_funds ''a'' ''b'' 100 (tx_enter pg (conn (fresh_world (sample_db 1000 [Failed])))))
      = Inl (OtherPsycopgError, ''database error'')
   \<and> isinstance_psycopg_Error (OtherPsycopgError, ''database error'')
   \<and> \<not> isinstance_SerializationFailure (OtherPsycopgError, ''database error'')
   \<and> fst (run_transaction pg (transfer_funds ''a'' ''b'' 100) 3
        (fresh_world (sample_db 1000 [Failed])))
      = Inl (OtherPsycopgError, ''database error'')
   \<and> calls_during (fresh_world (sample_db 1000 [Failed]))
        (snd (run_transaction pg (transfer_funds ''a'' ''b'' 100) 3
          (fresh_world (sample_db 1000 [Failed]))))
      = [Tx_Enter, Op_Call, Tx_Rollback]"
proof -
  let ?op = "transfer_funds ''a'' ''b'' 100"
  let ?w = "fresh_world (sample_db 1000 [Failed])"
  let ?e = "(OtherPsycopgError, ''database error'')"
  have h1: "(1::int) \<le> 3" by simp
  have h2: "fst (?op (tx_enter pg (conn ?w))) = Inl ?e"
    by (simp add: sample_defs)
  have h3: "isinstance_psycopg_Error ?e" by simp
  have h4: "\<not> isinstance_SerializationFailure ?e" by simp
  from run_transaction_fatal_error
    [where S = pg and op = ?op and w = ?w and e = ?e, OF h1 h2 h3 h4] h1 h2 h3 h4
  show ?thesis by simp
qed

text \<open>
  C5. If the first invocation of the unit of work raises an error that is no database
  error (so neither \<^verbatim>\<open>except\<close> clause matches it), then that same error leaves
  run_transaction; the unit of work has been invoked exactly once, and neither
  \<^verbatim>\<open>conn.rollback()\<close> nor \<^verbatim>\<open>time.sleep\<close> has been called.
\<close>

theorem run_transaction_business_error:
  assumes "1 \<le> max_retries"
    and "fst (op (tx_enter S (conn w))) = Inl e"
    and "\<not> isinstance_psycopg_Error e"
  shows "fst (run_transaction S op max_retries w) = Inl e
    \<and> calls_during w (snd (run_transaction S op max_retries w)) = [Tx_Enter, Op_Call, Tx_Rollback]
    \<and> count_list (calls_during w (snd (run_transaction S op max_retries w))) Op_Call = 1
    \<and> count_list (calls_during w (snd (run_transaction S op max_retries w))) Conn_Rollback = 0
    \<and> count_list (calls_during w (snd (run_transaction S op max_retries w))) Time_Sleep = 0
    \<and> sleeps_during w (snd (run_transaction S op max_retries w)) = []"
proof -
  have "\<not> isinstance_SerializationFailure e"
    using assms(3) by (cases e) simp
  with run_transaction_first_raises
      [where S = S and op = op and w = w and e = e and max_retries = max_retries] assms(1,2)
  show ?thesis
    by (simp add: calls_during_def sleeps_during_def leave_rollback_def)
qed

text \<open>The transfer of 100 from an account that holds 50.\<close>

theorem run_transaction_business_error_witness:
  "(1::int) \<le> 3
   \<and> fst (transfer_funds ''a'' ''b'' 100 (tx_enter pg (conn (fresh_world (sample_db 50 [])))))
      = Inl (RuntimeError, ''insufficient funds in a: have 50, need 100'')
   \<and> \<not> isinstance_psycopg_Error (RuntimeError, ''insufficient funds in a: have 50, need 100'')
   \<and> fst (run_transaction pg (transfer_funds ''a'' ''b'' 100) 3 (fresh_world (sample_db 50 [])))
      = Inl (RuntimeError, ''insufficient funds in a: have 50, need 100'')
   \<and> calls_during (fresh_world (sample_db 50 []))
        (snd (run_transaction pg (transfer_funds ''a'' ''b'' 100) 3 (fresh_world (sample_db 50 []))))
      = [Tx_Enter, Op_Call, Tx_Rollback]
   \<and> sleeps_during (fresh_world (sample_db 50 []))
        (snd (run_transaction pg (transfer_funds ''a'' ''b'' 100) 3 (fresh_world (sample_db 50 []))))
      = []"
proof -
  let ?op = "transfer_funds ''a'' ''b'' 100"
  let ?w = "fresh_world (sample_db 50 [])"
  let ?e = "(RuntimeError, ''insufficient funds in a: have 50, need 100'')"
  have s50: "str_int 50 = ''50''" and s100: "str_int 100 = ''100''"
    by (simp_all add: str_int_def digit_char_def)
  have h1: "(1::int) \<le> 3" by simp
  have h2: "fst (?op (tx_enter pg (conn ?w))) = Inl ?e"
    by (simp add: sample_defs insufficient_funds_def s50 s100)
  have h3: "\<not> isinstance_psycopg_Error ?e" by simp
  from run_transaction_business_error
    [where S = pg and op = ?op and w = ?w and e = ?e, OF h1 h2 h3] h1 h2 h3
  show ?thesis by simp
qed

section \<open>The transaction scope\<close>








section \<open>The jitter\<close>

lemma retry_loop_jitter_free:
  assumes "conn w1 = conn w2" and "calls w1 = calls w2"
    and "length (slept w1) = length (slept w2)"
  shows "fst (retry_loop S op rs w1) = fst (retry_loop S op rs w2)
    \<and> conn (snd (retry_loop S op rs w1)) = conn (snd (retry_loop S op rs w2))
    \<and> calls (snd (retry_loop S op rs w1)) = calls (snd (retry_loop S op rs w2))
    \<and> length (slept (snd (retry_loop S op rs w1))) = length (slept (snd (retry_loop S op rs w2)))"
  using assms
proof (induction rs arbitrary: w1 w2)
  case Nil
  then show ?case by simp
next
  case (Cons r rs)
  obtain x c where oc: "op (conn w2) = (x, c)" by (cases "op (conn w2)")
  show ?case
  proof (cases x)
    case (Inr u)
    then show ?thesis using oc Cons.prems by simp
  next
    case (Inl e)
    show ?thesis
    proof (cases "isinstance_SerializationFailure e")
      case False
      then show ?thesis using oc Inl Cons.prems by simp
    next
      case True
      let ?h1 = "handle_serialization_failure S r (w1\<lparr>conn := c, calls := calls w1 @ [Op_Call]\<rparr>)"
      let ?h2 = "handle_serialization_failure S r (w2\<lparr>conn := c, calls := calls w2 @ [Op_Call]\<rparr>)"
      have "conn ?h1 = conn ?h2" "calls ?h1 = calls ?h2" "length (slept ?h1) = length (slept ?h2)"
        using Cons.prems by simp_all
      from Cons.IH [OF this] show ?thesis
        using oc Inl True Cons.prems by simp
    qed
  qed
qed

text \<open>
  C8. Two runs of run_transaction that differ only in the outputs \<open>g1\<close> and \<open>g2\<close> of the
  random generator (same session, same unit of work, same \<open>max_retries\<close>, same connection
  state, hence the same failures) end the same way, make the same calls in the same
  order, in particular as many invocations and the same rollbacks, leave the same
  connection state and sleep as many times: the draws reach nothing but the durations.
\<close>

theorem run_transaction_jitter_independent:
  "fst (run_transaction S op max_retries (w\<lparr>rng := g1\<rparr>))
      = fst (run_transaction S op max_retries (w\<lparr>rng := g2\<rparr>))
   \<and> calls (snd (run_transaction S op max_retries (w\<lparr>rng := g1\<rparr>)))
      = calls (snd (run_transaction S op max_retries (w\<lparr>rng := g2\<rparr>)))
   \<and> count_list (calls (snd (run_transaction S op max_retries (w\<lparr>rng := g1\<rparr>)))) Op_Call
      = count_list (calls (snd (run_transaction S op max_retries (w\<lparr>rng := g2\<rparr>)))) Op_Call
   \<and> conn (snd (run_transaction S op max_retries (w\<lparr>rng := g1\<rparr>)))
      = conn (snd (run_transaction S op max_retries (w\<lparr>rng := g2\<rparr>)))
   \<and> length (slept (snd (run_transaction S op max_retries (w\<lparr>rng := g1\<rparr>))))
      = length (slept (snd (run_transaction S op max_retries (w\<lparr>rng := g2\<rparr>))))"
proof -
  let ?w1 = "w\<lparr>rng := g1, conn := tx_enter S (conn w), calls := calls w @ [Tx_Enter]\<rparr>"
  let ?w2 = "w\<lparr>rng := g2, conn := tx_enter S (conn w), calls := calls w @ [Tx_Enter]\<rparr>"
  have "conn ?w1 = conn ?w2" "calls ?w1 = calls ?w2" "length (slept ?w1) = length (slept ?w2)"
    by simp_all
  from retry_loop_jitter_free [OF this, of S op "[1..max_retries]"]
  show ?thesis
    by (auto simp: run_transaction_def leave_commit_def leave_rollback_def
        split: prod.splits option.splits sum.splits)
qed

section \<open>Exhausted retries\<close>



text \<open>
  C10. Called with \<open>max_retries = 0\<close>, run_transaction never invokes the unit of work and
  never sleeps: the only calls are entering and leaving the transaction block, and the
  retries-exhausted error naming 0 retries is raised.
\<close>

theorem run_transaction_zero_retries:
  "fst (run_transaction S op 0 w) = Inl (ValueError, ''transaction did not succeed after 0 retries'')
   \<and> calls_during w (snd (run_transaction S op 0 w)) = [Tx_Enter, Tx_Rollback]
   \<and> count_list (calls_during w (snd (run_transaction S op 0 w))) Op_Call = 0
   \<and> sleeps_during w (snd (run_transaction S op 0 w)) = []"
  by (simp add: run_transaction_def upto_1_0 retries_exhausted_def str_int_def
      leave_rollback_def calls_during_def sleeps_during_def digit_char_def)

section \<open>The transfer of the sample program\<close>

lemma cur_execute_done:
  "answers c = [] \<Longrightarrow> cur_execute stmt c = (Inr (), c\<lparr>accounts := stmt (accounts c)\<rparr>)"
  by (simp add: cur_execute_def)

lemma create_accounts_done:
  "answers c = [] \<Longrightarrow>
   create_accounts id1 id2 c
     = (Inr [id1, id2], c\<lparr>accounts := (accounts c)(id1 \<mapsto> 1000, id2 \<mapsto> 250)\<rparr>)"
  by (simp add: create_accounts_def cur_execute_done upsert_accounts_def)

lemma transfer_funds_done:
  assumes "answers c = []" and "accounts c frm = Some b" and "amount \<le> b"
  shows "transfer_funds frm to amount c
    = (Inr (), c\<lparr>accounts := update_balance (\<lambda>b. b + amount) to
                    (update_balance (\<lambda>b. b - amount) frm (accounts c))\<rparr>)"
  using assms by (simp add: transfer_funds_def cur_execute_done)

lemma transfer_funds_insufficient:
  assumes "answers c = []" and "accounts c frm = Some b" and "b < amount"
  shows "transfer_funds frm to amount c = (Inl (insufficient_funds frm b amount), c)"
  using assms by (simp add: transfer_funds_def cur_execute_done)

lemma insufficient_funds_message:
  "fst (insufficient_funds frm b amount) = RuntimeError
   \<and> prefix ''insufficient funds'' (snd (insufficient_funds frm b amount))"
  by (simp add: insufficient_funds_def)

text \<open>
  C7, amended. \<^verbatim>\<open>create_accounts\<close> returns the ids of the 1000-account and of the
  250-account in this order, and \<^verbatim>\<open>main\<close> pops the destination first: the 250-account
  is the destination and the 1000-account the source. With two distinct ids and a
  database that reports no error, the program transfers 100 from the 1000-account to the
  250-account, and the balances read afterwards are 900 and 350. For \<^verbatim>\<open>transfer_funds\<close>
  under run_transaction in general: when the source balance is below the amount, a
  RuntimeError whose message starts with \<^verbatim>\<open>insufficient funds\<close> is raised and no balance
  changes.
\<close>

theorem main_transfer_balances:
  assumes "id1 \<noteq> id2" and "answers (conn w) = []"
  shows "fst (main_transfer id1 id2 w) = Inr ()
    \<and> accounts (snd (create_accounts id1 id2 (conn w))) id1 = Some 1000
    \<and> accounts (snd (create_accounts id1 id2 (conn w))) id2 = Some 250
    \<and> accounts (conn (snd (main_transfer id1 id2 w))) id1 = Some 900
    \<and> accounts (conn (snd (main_transfer id1 id2 w))) id2 = Some 350
    \<and> (answers (conn v) = [] \<and> accounts (conn v) frm = Some b \<and> b < amount \<and> 1 \<le> m \<longrightarrow>
         fst (run_transaction pg (transfer_funds frm to amount) m v)
           = Inl (insufficient_funds frm b amount)
         \<and> fst (insufficient_funds frm b amount) = RuntimeError
         \<and> prefix ''insufficient funds'' (snd (insufficient_funds frm b amount))
         \<and> accounts (conn (snd (run_transaction pg (transfer_funds frm to amount) m v)))
             = accounts (conn v))"
proof -
  let ?c = "(conn w)\<lparr>accounts := (accounts (conn w))(id1 \<mapsto> 1000, id2 \<mapsto> 250)\<rparr>"
  let ?op = "transfer_funds id1 id2 100"
  let ?w1 = "w\<lparr>conn := ?c\<rparr>"
  have ca: "create_accounts id1 id2 (conn w) = (Inr [id1, id2], ?c)"
    by (rule create_accounts_done [OF assms(2)])
  have pb: "print_balances ?c = (Inr (), ?c)"
    using assms(2) by (simp add: print_balances_def cur_execute_done)
  have pops: "list_pop [id1, id2] = Inr (id2, [id1])" "list_pop [id1] = Inr (id1, [])"
    by (simp_all add: list_pop_def)
  have enter: "tx_enter pg (conn ?w1) = ?c\<lparr>tx_start := Some (accounts ?c)\<rparr>"
    by (simp add: pg_def)
  have tf: "?op (tx_enter pg (conn ?w1))
      = (Inr (), (tx_enter pg (conn ?w1))\<lparr>accounts :=
           update_balance (\<lambda>b. b + 100) id2 (update_balance (\<lambda>b. b - 100) id1 (accounts ?c))\<rparr>)"
    unfolding enter using assms by (subst transfer_funds_done [where b = 1000]) simp_all
  have d1: "1 \<le> default_max_retries"
    by (simp add: default_max_retries_def)
  have ok: "fst (?op (tx_enter pg (conn ?w1))) = Inr ()"
    unfolding tf by simp
  have run: "run_transaction pg ?op default_max_retries ?w1
      = (Inr (), leave_commit pg
           (?w1\<lparr>conn := snd (?op (tx_enter pg (conn ?w1))), calls := calls ?w1 @ [Tx_Enter, Op_Call]\<rparr>))"
    by (rule run_transaction_first_returns [where S = pg and op = ?op and w = ?w1, OF d1 ok])
  have snd_tf: "snd (?op (tx_enter pg (conn ?w1)))
      = (tx_enter pg (conn ?w1))\<lparr>accounts :=
           update_balance (\<lambda>b. b + 100) id2 (update_balance (\<lambda>b. b - 100) id1 (accounts ?c))\<rparr>"
    unfolding tf by simp
  have main: "main_transfer id1 id2 w
      = (Inr (), leave_commit pg
           (?w1\<lparr>conn := (tx_enter pg (conn ?w1))\<lparr>accounts :=
                   update_balance (\<lambda>b. b + 100) id2
                     (update_balance (\<lambda>b. b - 100) id1 (accounts ?c))\<rparr>,
                 calls := calls ?w1 @ [Tx_Enter, Op_Call]\<rparr>))"
    unfolding snd_tf [symmetric] by (simp add: main_transfer_def ca pb pops run)
  have part1: "fst (main_transfer id1 id2 w) = Inr ()"
    by (simp add: main)
  have part2: "accounts (snd (create_accounts id1 id2 (conn w))) id1 = Some 1000"
    "accounts (snd (create_accounts id1 id2 (conn w))) id2 = Some 250"
    using assms(1) by (simp_all add: ca)
  have part3: "accounts (conn (snd (main_transfer id1 id2 w))) id1 = Some 900"
    "accounts (conn (snd (main_transfer id1 id2 w))) id2 = Some 350"
    using assms(1) by (simp_all add: main leave_commit_def pg_def update_balance_def)
  have part4: "fst (run_transaction pg (transfer_funds frm to amount) m v)
           = Inl (insufficient_funds frm b amount)
         \<and> fst (insufficient_funds frm b amount) = RuntimeError
         \<and> prefix ''insufficient funds'' (snd (insufficient_funds frm b amount))
         \<and> accounts (conn (snd (run_transaction pg (transfer_funds frm to amount) m v)))
             = accounts (conn v)"
    if h: "answers (conn v) = []" "accounts (conn v) frm = Some b" "b < amount" "1 \<le> m"
  proof -
    let ?e = "insufficient_funds frm b amount"
    have tfi: "transfer_funds frm to amount (tx_enter pg (conn v)) = (Inl ?e, tx_enter pg (conn v))"
      using h by (intro transfer_funds_insufficient) (simp_all add: pg_def)
    have nsf: "\<not> isinstance_SerializationFailure ?e"
      by (simp add: insufficient_funds_def)
    from run_transaction_first_raises
      [where S = pg and op = "transfer_funds frm to amount" and w = v and e = ?e and max_retries = m]
      h(4) nsf
    have "run_transaction pg (transfer_funds frm to amount) m v
      = (Inl ?e, leave_rollback pg
          (v\<lparr>conn := tx_enter pg (conn v), calls := calls v @ [Tx_Enter, Op_Call]\<rparr>))"
      by (simp add: tfi)
    then show ?thesis
      using insufficient_funds_message [of frm b amount]
      by (simp add: leave_rollback_def pg_def restore_def)
  qed
  from part1 part2 part3 part4 show ?thesis by blast
qed

text \<open>
  The program on an empty table with the ids \<open>id1\<close> and \<open>id2\<close>, and the transfer of 100
  from an account that holds 50.
\<close>

theorem main_transfer_balances_witness:
  "''id1'' \<noteq> ''id2''
   \<and> answers (conn (fresh_world empty_db)) = []
   \<and> fst (main_transfer ''id1'' ''id2'' (fresh_world empty_db)) = Inr ()
   \<and> accounts (conn (snd (main_transfer ''id1'' ''id2'' (fresh_world empty_db)))) ''id1'' = Some 900
   \<and> accounts (conn (snd (main_transfer ''id1'' ''id2'' (fresh_world empty_db)))) ''id2'' = Some 350
   \<and> answers (conn (fresh_world (sample_db 50 []))) = []
   \<and> accounts (conn (fresh_world (sample_db 50 []))) ''a'' = Some 50
   \<and> (50::int) < 100
   \<and> (1::int) \<le> 3
   \<and> fst (run_transaction pg (transfer_funds ''a'' ''b'' 100) 3 (fresh_world (sample_db 50 [])))
      = Inl (insufficient_funds ''a'' 50 100)
   \<and> prefix ''insufficient funds'' (snd (insufficient_funds ''a'' 50 100))
   \<and> accounts (conn (snd (run_transaction pg (transfer_funds ''a'' ''b'' 100) 3
        (fresh_world (sample_db 50 [])))))
      = accounts (conn (fresh_world (sample_db 50 [])))"
proof -
  let ?w = "fresh_world empty_db"
  let ?v = "fresh_world (sample_db 50 [])"
  have h1: "''id1'' \<noteq> ''id2''" by simp
  have h2: "answers (conn ?w) = []"
    by (simp add: fresh_world_def empty_db_def)
  have g1: "answers (conn ?v) = []" and g2: "accounts (conn ?v) ''a'' = Some 50"
    by (simp_all add: fresh_world_def sample_db_def)
  have g3: "(50::int) < 100" and g4: "(1::int) \<le> 3"
    by simp_all
  note inst = main_transfer_balances [OF h1 h2, where v = ?v and frm = "''a''" and b = 50
      and amount = 100 and m = 3 and to = "''b''"]
  from inst g1 g2 g3 g4 h1 h2 show ?thesis
    by blast
qed

text \<open>
  As the specification states it, the 250-account is the source and the balances end as
  1150 and 150. On an empty table with the ids \<open>id1\<close> and \<open>id2\<close>, the account created
  with 1000 ends with 900 and the account created with 250 ends with 350.
\<close>

theorem main_transfer_balances_counterexample:
  "accounts (snd (create_accounts ''id1'' ''id2'' (conn (fresh_world empty_db)))) ''id1'' = Some 1000
   \<and> accounts (snd (create_accounts ''id1'' ''id2'' (conn (fresh_world empty_db)))) ''id2'' = Some 250
   \<and> fst (main_transfer ''id1'' ''id2'' (fresh_world empty_db)) = Inr ()
   \<and> accounts (conn (snd (main_transfer ''id1'' ''id2'' (fresh_world empty_db)))) ''id1'' = Some 900
   \<and> accounts (conn (snd (main_transfer ''id1'' ''id2'' (fresh_world empty_db)))) ''id2'' = Some 350
   \<and> \<not> (accounts (conn (snd (main_transfer ''id1'' ''id2'' (fresh_world empty_db)))) ''id1'' = Some 1150
        \<and> accounts (conn (snd (main_transfer ''id1'' ''id2'' (fresh_world empty_db)))) ''id2'' = Some 150)"
  by (simp add: main_transfer_def create_accounts_def print_balances_def list_pop_def
      run_transaction_def default_max_retries_def upto.simps transfer_funds_def cur_execute_def
      upsert_accounts_def update_balance_def pg_def leave_commit_def fresh_world_def empty_db_def)

end
